theory Spec2Isabelle
  imports Main "HOL-Library.Word"
begin

unbundle bit_operations_syntax

section \<open>Characters\<close>

text \<open>
  The source is generic in the character type \<open>CharT\<close> (\<open>char\<close>, \<open>wchar_t\<close>,
  \<open>char8_t\<close>, \<open>char16_t\<close>, \<open>char32_t\<close>). A character is modelled as a machine word
  \<open>'a word\<close> of the width of \<open>CharT\<close>; every character type of C++ has at least 8 bits.
  The character literals used by the source are their ASCII codes.
\<close>

definition chr_a :: "'a::len word" where "chr_a = 0x61"
definition chr_z :: "'a::len word" where "chr_z = 0x7A"
definition chr_A :: "'a::len word" where "chr_A = 0x41"
definition qmark :: "'a::len word" where "qmark = 0x3F"
definition dot :: "'a::len word" where "dot = 0x2E"
definition star :: "'a::len word" where "star = 0x2A"

text \<open>
  The contents of a string literal (without the terminating null character) in the
  character type \<open>'a word\<close>.
\<close>

definition lit :: "string \<Rightarrow> 'a::len word list" where
  "lit s = map (\<lambda>c. of_nat (of_char c)) s"

section \<open>Character classifier\<close>

text \<open>\<^verbatim>\<open>lowercase_bit<CharT> = CharT{'a'} - CharT{'A'}\<close>\<close>

definition lowercase_bit :: "'a::len word" where
  "lowercase_bit = chr_a - chr_A"

text \<open>
  \<^verbatim>\<open>to_lower(c) = c | lowercase_bit<CharT>\<close>. For the narrow character types C++ computes
  the disjunction after integral promotion; the promotion preserves the value and the
  result fits the character type again, so the model stays in \<open>'a word\<close>.
\<close>

definition to_lower :: "'a::len word \<Rightarrow> 'a word" where
  "to_lower c = c OR lowercase_bit"

text \<open>
  The operator \<^verbatim>\<open>&\<close> of C++ applied to two \<open>bool\<close> operands: both are promoted to
  \<open>int\<close> (0 or 1), combined bitwise, and the result is converted back (non-zero is true).
\<close>

definition bool_bitand :: "bool \<Rightarrow> bool \<Rightarrow> bool" where
  "bool_bitand x y = ((of_bool x :: int) AND of_bool y \<noteq> 0)"

text \<open>
  \<^verbatim>\<open>is_alpha(in)\<close>: \<^verbatim>\<open>c = to_lower(in); return (c >= 'a') & (c <= 'z')\<close>. The comparison is
  the unsigned one of words; \<open>is_alpha_signed\<close> is the same test read with a signed
  character type.
\<close>

definition is_alpha :: "'a::len word \<Rightarrow> bool" where
  "is_alpha inp = (let c = to_lower inp in bool_bitand (chr_a \<le> c) (c \<le> chr_z))"

definition is_alpha_signed :: "'a::len word \<Rightarrow> bool" where
  "is_alpha_signed inp = (let c = to_lower inp in bool_bitand (chr_a \<le>s c) (c \<le>s chr_z))"

section \<open>Character comparator\<close>

text \<open>
  The case mode \<^verbatim>\<open>case_sensitivity_tag\<close> wraps a \<open>bool\<close>: \<^verbatim>\<open>case_sensitive\<close> is \<open>True\<close> and
  \<^verbatim>\<open>case_insensitive\<close> is \<open>False\<close>.

  \<^verbatim>\<open>wildcard_comparator<CaseSensitive>::operator()(pattern, subject)\<close>. In the
  case-insensitive branch \<^verbatim>\<open>==\<close> binds tighter than \<^verbatim>\<open>&\<close>, which binds tighter than
  \<^verbatim>\<open>||\<close>, and \<^verbatim>\<open>&\<close> associates to the left.
\<close>

definition wildcard_comparator :: "bool \<Rightarrow> 'a::len word \<Rightarrow> 'a word \<Rightarrow> bool" where
  "wildcard_comparator CaseSensitive pattern subject =
     (if pattern = qmark then subject \<noteq> dot
      else if CaseSensitive then pattern = subject
      else pattern = subject \<or>
           bool_bitand (bool_bitand (is_alpha pattern) (is_alpha subject))
                       (to_lower pattern = to_lower subject))"

section \<open>Sequence matcher\<close>

text \<open>
  An iterator range \<open>[it, end)\<close> is modelled by the list of the characters it ranges
  over: \<^verbatim>\<open>it == end\<close> is \<open>[]\<close>, \<^verbatim>\<open>*it\<close> is \<open>hd\<close> and \<^verbatim>\<open>std::next(it)\<close> is \<open>tl\<close>.

  \<^verbatim>\<open>std::mismatch(first1, last1, first2, last2, pred)\<close> of the standard library advances
  both iterators while neither range is exhausted and \<open>pred\<close> accepts the current pair;
  it returns the two positions reached.
\<close>

fun mismatch :: "('a \<Rightarrow> 'b \<Rightarrow> bool) \<Rightarrow> 'a list \<Rightarrow> 'b list \<Rightarrow> 'a list \<times> 'b list" where
  "mismatch pred (x # xs) (y # ys) =
     (if pred x y then mismatch pred xs ys else (x # xs, y # ys))"
| "mismatch pred xs ys = (xs, ys)"

lemma mismatch_length_fst: "length (fst (mismatch pred xs ys)) \<le> length xs"
  by (induction pred xs ys rule: mismatch.induct) auto

lemma mismatch_length_snd: "length (snd (mismatch pred xs ys)) \<le> length ys"
  by (induction pred xs ys rule: mismatch.induct) auto

text \<open>
  \<^verbatim>\<open>glob<CaseSensitive>(pit, pend, sit, send)\<close>. One round of the \<^verbatim>\<open>for (;;)\<close> loop is one
  unfolding of the function; the assignment \<^verbatim>\<open>sit = std::next(sit)\<close> followed by the next
  round is the last call, the recursive call of the source is the call in the condition.
  As in the source, \<open>hd\<close> and \<open>tl\<close> are applied only after the test that the range is not
  exhausted.
\<close>

function glob :: "bool \<Rightarrow> 'a::len word list \<Rightarrow> 'a word list \<Rightarrow> bool" where
  "glob CaseSensitive pit sit =
     (case mismatch (wildcard_comparator CaseSensitive) pit sit of
        (pit', sit') \<Rightarrow>
          if pit' = [] then sit' = []
          else if hd pit' \<noteq> star then False
          else if glob CaseSensitive (tl pit') sit' then True
          else if sit' = [] then False
          else glob CaseSensitive pit' (tl sit'))"
  by pat_completeness auto

termination
proof (relation "measure (\<lambda>(c, p, s). length p + length s)")
  show "wf (measure (\<lambda>(c, p, s). length p + length s))" by simp
next
  fix CaseSensitive :: bool and pit sit x y :: "'a word list"
  assume m: "(x, y) = mismatch (wildcard_comparator CaseSensitive) pit sit"
    and ne: "x \<noteq> []"
  from m [symmetric] have "length x \<le> length pit" "length y \<le> length sit"
    using mismatch_length_fst [of "wildcard_comparator CaseSensitive" pit sit]
      mismatch_length_snd [of "wildcard_comparator CaseSensitive" pit sit]
    by simp_all
  with ne show "((CaseSensitive, tl x, y), CaseSensitive, pit, sit)
      \<in> measure (\<lambda>(c, p, s). length p + length s)"
    by (cases x) auto
next
  fix CaseSensitive :: bool and pit sit x y :: "'a word list"
  assume m: "(x, y) = mismatch (wildcard_comparator CaseSensitive) pit sit"
    and ne: "x \<noteq> []" "y \<noteq> []"
  from m [symmetric] have "length x \<le> length pit" "length y \<le> length sit"
    using mismatch_length_fst [of "wildcard_comparator CaseSensitive" pit sit]
      mismatch_length_snd [of "wildcard_comparator CaseSensitive" pit sit]
    by simp_all
  with ne show "((CaseSensitive, x, tl y), CaseSensitive, pit, sit)
      \<in> measure (\<lambda>(c, p, s). length p + length s)"
    by (cases y) auto
qed

declare glob.simps [simp del]

text \<open>
  The same body read as a possibly non-returning computation: \<open>None\<close> stands for a run
  that never returns. Nothing about termination goes into this definition.
\<close>

partial_function (option) glob_partial ::
    "bool \<Rightarrow> 'a::len word list \<Rightarrow> 'a word list \<Rightarrow> bool option" where
  "glob_partial CaseSensitive pit sit =
     (case mismatch (wildcard_comparator CaseSensitive) pit sit of
        (pit', sit') \<Rightarrow>
          if pit' = [] then Some (sit' = [])
          else if hd pit' \<noteq> star then Some False
          else Option.bind (glob_partial CaseSensitive (tl pit') sit') (\<lambda>r.
            if r then Some True
            else if sit' = [] then Some False
            else glob_partial CaseSensitive pit' (tl sit')))"

section \<open>Entry points\<close>

text \<open>
  A \<^verbatim>\<open>std::basic_string_view<CharT>\<close> is modelled by the list of the characters it views;
  \<^verbatim>\<open>begin()\<close> and \<^verbatim>\<open>end()\<close> delimit exactly this list.
\<close>

type_synonym 'a string_view = "'a word list"

text \<open>\<^verbatim>\<open>glob<CaseSensitive>(basic_string_view pattern, basic_string_view subject)\<close>\<close>

definition glob_sv :: "bool \<Rightarrow> 'a::len string_view \<Rightarrow> 'a string_view \<Rightarrow> bool" where
  "glob_sv CaseSensitive pattern subject = glob CaseSensitive pattern subject"

text \<open>
  \<^verbatim>\<open>glob<CaseSensitive>(const A & a, const B & b)\<close> for two arguments convertible to string
  views of one character type. The conversions \<^verbatim>\<open>std::basic_string_view{a}\<close> and
  \<^verbatim>\<open>std::basic_string_view{b}\<close> belong to the standard library and are parameters here.
\<close>

definition glob_any ::
    "('x \<Rightarrow> 'a::len string_view) \<Rightarrow> ('y \<Rightarrow> 'a string_view) \<Rightarrow> bool \<Rightarrow> 'x \<Rightarrow> 'y \<Rightarrow> bool" where
  "glob_any view_a view_b CaseSensitive a b = glob_sv CaseSensitive (view_a a) (view_b b)"

text \<open>
  \<^verbatim>\<open>fixed_string<CharT, Length>\<close> is a \<^verbatim>\<open>std::array<CharT, Length>\<close> copied from a character
  array; \<^verbatim>\<open>size()\<close> is \<^verbatim>\<open>Length - 1u\<close> and \<^verbatim>\<open>to_view()\<close> views the first \<^verbatim>\<open>size()\<close>
  characters. A C++ array has at least one element.
\<close>

datatype 'c fixed_string = Fixed_string (super: "'c list")

definition fixed_string_size :: "'c fixed_string \<Rightarrow> nat" where
  "fixed_string_size fs = length (super fs) - 1"

definition to_view :: "'a::len word fixed_string \<Rightarrow> 'a string_view" where
  "to_view fs = take (fixed_string_size fs) (super fs)"

text \<open>The array that the string literal with the given characters denotes.\<close>

definition string_literal :: "'a::len word list \<Rightarrow> 'a word list" where
  "string_literal chars = chars @ [0]"

text \<open>
  \<^verbatim>\<open>glob_match<Pattern, CaseSensitive>(in)\<close>; \<open>glob_match_default\<close> is the instance with
  the default argument \<^verbatim>\<open>CaseSensitive = case_insensitive\<close>.
\<close>

definition glob_match :: "'a::len word fixed_string \<Rightarrow> bool \<Rightarrow> 'a string_view \<Rightarrow> bool" where
  "glob_match Pattern CaseSensitive inp = glob_sv CaseSensitive (to_view Pattern) inp"

definition glob_match_default :: "'a::len word fixed_string \<Rightarrow> 'a string_view \<Rightarrow> bool" where
  "glob_match_default Pattern inp = glob_match Pattern False inp"

text \<open>\<^verbatim>\<open>glob_me(std::string_view pattern, std::string_view subject)\<close>\<close>

definition glob_me :: "8 string_view \<Rightarrow> 8 string_view \<Rightarrow> bool" where
  "glob_me pattern subject = glob_sv False pattern subject"

section \<open>The matching relation of the specification\<close>

text \<open>
  The meaning of a pattern as the specification words it, not taken from the code of
  \<open>glob\<close>: a star matches zero or more arbitrary subject characters, every other pattern
  character matches exactly one subject character accepted by the comparator, and the
  whole subject has to be matched by the whole pattern.
\<close>

fun glob_spec :: "bool \<Rightarrow> 'a::len word list \<Rightarrow> 'a word list \<Rightarrow> bool" where
  "glob_spec cs [] s = (s = [])"
| "glob_spec cs (p # ps) [] = (p = star \<and> glob_spec cs ps [])"
| "glob_spec cs (p # ps) (c # s) =
     (if p = star then glob_spec cs ps (c # s) \<or> glob_spec cs (p # ps) s
      else wildcard_comparator cs p c \<and> glob_spec cs ps s)"

section \<open>Facts about the classifier\<close>

lemma bool_bitand_iff: "bool_bitand x y = (x \<and> y)"
  by (cases x; cases y) (simp_all add: bool_bitand_def)

text \<open>The character codes of the source are below 256 and fit every character type.\<close>

lemma unat_small:
  assumes "8 \<le> LENGTH('a::len)" "n < 256"
  shows "unat (of_nat n :: 'a word) = n"
proof -
  have "(2::nat) ^ 8 \<le> 2 ^ LENGTH('a)"
    using assms(1) by (rule power_increasing) simp
  with assms(2) have "n < 2 ^ LENGTH('a)" by simp
  then show ?thesis by (simp add: unat_of_nat)
qed

lemma unat_codes:
  assumes "8 \<le> LENGTH('a::len)"
  shows "unat (chr_a :: 'a word) = 97" "unat (chr_z :: 'a word) = 122"
    "unat (chr_A :: 'a word) = 65" "unat (qmark :: 'a word) = 63"
    "unat (dot :: 'a word) = 46" "unat (star :: 'a word) = 42"
  using unat_small [OF assms, of 97] unat_small [OF assms, of 122] unat_small [OF assms, of 65]
    unat_small [OF assms, of 63] unat_small [OF assms, of 46] unat_small [OF assms, of 42]
  by (simp_all add: chr_a_def chr_z_def chr_A_def qmark_def dot_def star_def)

lemma lowercase_bit_32: "(lowercase_bit :: 'a::len word) = 32"
  by (simp add: lowercase_bit_def chr_a_def chr_A_def)

lemma unat_lowercase_bit:
  assumes "8 \<le> LENGTH('a::len)"
  shows "unat (lowercase_bit :: 'a word) = 32"
  using unat_small [OF assms, of 32] by (simp add: lowercase_bit_32)

lemma nat_or_32: "(n::nat) OR 32 = (if even (n div 32) then n + 32 else n)"
proof -
  have "n OR 32 = set_bit 5 n" by (simp add: set_bit_eq_or)
  also have "\<dots> = n + of_bool (\<not> bit n 5) * 2 ^ 5" by (rule set_bit_eq)
  also have "bit n 5 = odd (n div 32)" by (simp add: bit_iff_odd_drop_bit drop_bit_eq_div)
  finally show ?thesis by simp
qed

lemma unat_to_lower:
  assumes "8 \<le> LENGTH('a::len)"
  shows "unat (to_lower (c :: 'a word)) = (if even (unat c div 32) then unat c + 32 else unat c)"
  by (simp add: to_lower_def unsigned_or_eq unat_lowercase_bit [OF assms] nat_or_32)

text \<open>
  In a character type of at least 8 bits \<open>is_alpha\<close> holds exactly of the ASCII
  letters \<open>A\<close> to \<open>Z\<close> (65 to 90) and \<open>a\<close> to \<open>z\<close> (97 to 122).
\<close>

lemma div32_uppercase_range: "64 \<le> (n::nat) \<Longrightarrow> n < 96 \<Longrightarrow> n div 32 = 2"
  by (rule div_nat_eqI) simp_all

lemma div32_lowercase_range: "96 \<le> (n::nat) \<Longrightarrow> n < 128 \<Longrightarrow> n div 32 = 3"
  by (rule div_nat_eqI) simp_all

lemma is_alpha_iff:
  assumes "8 \<le> LENGTH('a::len)"
  shows "is_alpha (c :: 'a word) \<longleftrightarrow>
    (65 \<le> unat c \<and> unat c \<le> 90) \<or> (97 \<le> unat c \<and> unat c \<le> 122)"
proof (cases "even (unat c div 32)")
  case True
  then have "\<not> (97 \<le> unat c \<and> unat c \<le> 122)"
    using div32_lowercase_range [of "unat c"] by auto
  with True show ?thesis
    by (auto simp: is_alpha_def Let_def bool_bitand_iff word_le_nat_alt unat_codes [OF assms]
        unat_to_lower [OF assms])
next
  case False
  then have "\<not> (65 \<le> unat c \<and> unat c \<le> 90)"
    using div32_uppercase_range [of "unat c"] by auto
  with False show ?thesis
    by (auto simp: is_alpha_def Let_def bool_bitand_iff word_le_nat_alt unat_codes [OF assms]
        unat_to_lower [OF assms])
qed

lemma star_not_alpha: "8 \<le> LENGTH('a::len) \<Longrightarrow> \<not> is_alpha (star :: 'a word)"
  by (simp add: is_alpha_iff unat_codes)

lemma to_lower_idem: "to_lower (to_lower c) = to_lower c"
  by (simp add: to_lower_def or.assoc)

lemma to_lower_fixed: "c AND lowercase_bit = lowercase_bit \<Longrightarrow> to_lower c = c"
proof -
  assume "c AND lowercase_bit = lowercase_bit"
  then have "c OR lowercase_bit = c OR (c AND lowercase_bit)" by simp
  also have "\<dots> = c" by (simp add: word_ao_absorbs)
  finally show ?thesis by (simp add: to_lower_def)
qed

lemma codes_distinct:
  assumes "8 \<le> LENGTH('a::len)"
  shows "(star :: 'a word) \<noteq> qmark" "(dot :: 'a word) \<noteq> qmark" "(star :: 'a word) \<noteq> dot"
  using unat_codes [OF assms] by (auto dest: arg_cong [where f = unat])

text \<open>
  The test of \<open>is_alpha\<close> gives the same answer for a signed character type (such as
  \<open>char\<close> on most platforms) as for an unsigned one.
\<close>

lemma sint_cases:
  "sint (w :: 'a::len word) =
     (if uint w < 2 ^ (LENGTH('a) - 1) then uint w else uint w - 2 ^ LENGTH('a))"
proof -
  let ?n = "LENGTH('a) - 1"
  have p: "(2::int) ^ LENGTH('a) = 2 * 2 ^ ?n"
    by (cases "LENGTH('a)") simp_all
  have u: "0 \<le> uint w" "uint w < 2 * 2 ^ ?n"
    using uint_lt2p [of w] by (simp_all add: p)
  have "sint w = (uint w + 2 ^ ?n) mod (2 * 2 ^ ?n) - 2 ^ ?n"
    by (simp add: sint_uint signed_take_bit_eq_take_bit_shift take_bit_eq_mod p)
  also have "\<dots> = (if uint w < 2 ^ ?n then uint w else uint w - 2 * 2 ^ ?n)"
  proof (cases "uint w < 2 ^ ?n")
    case True
    with u have "(uint w + 2 ^ ?n) mod (2 * 2 ^ ?n) = uint w + 2 ^ ?n"
      by (intro mod_pos_pos_trivial) simp_all
    with True show ?thesis by simp
  next
    case False
    with u have "(uint w + 2 ^ ?n) mod (2 * 2 ^ ?n) = uint w + 2 ^ ?n - 2 * 2 ^ ?n"
      by (subst mod_pos_geq) simp_all
    with False show ?thesis by simp
  qed
  finally show ?thesis by (simp add: p)
qed

lemma is_alpha_signed_eq:
  assumes "8 \<le> LENGTH('a::len)"
  shows "is_alpha_signed (c :: 'a word) = is_alpha c"
proof -
  let ?n = "LENGTH('a) - 1"
  have "(2::int) ^ 7 \<le> 2 ^ ?n"
    using assms by (intro power_increasing) simp_all
  then have big: "(128::int) \<le> 2 ^ ?n" by simp
  have ua: "uint (chr_a :: 'a word) = 97" "uint (chr_z :: 'a word) = 122"
    using unat_codes [OF assms] by (simp_all add: uint_nat)
  have sa: "sint (chr_a :: 'a word) = 97" "sint (chr_z :: 'a word) = 122"
    using big by (simp_all add: sint_cases ua)
  have lt: "uint (to_lower c) < 2 ^ LENGTH('a)" by (rule uint_lt2p)
  show ?thesis
  proof (cases "uint (to_lower c) < 2 ^ ?n")
    case True
    then have "sint (to_lower c) = uint (to_lower c)" by (simp add: sint_cases)
    then show ?thesis
      by (simp add: is_alpha_signed_def is_alpha_def Let_def word_sle_eq word_le_def sa ua)
  next
    case False
    with lt have "sint (to_lower c) < 0" by (simp add: sint_cases)
    moreover from False big have "122 < uint (to_lower c)" by simp
    ultimately show ?thesis
      by (simp add: is_alpha_signed_def is_alpha_def Let_def bool_bitand_iff word_sle_eq
          word_le_def sa ua)
  qed
qed


text \<open>
  Claim C10: \<open>to_lower\<close> is idempotent on every character of every character type, and
  it leaves a character that already has the fold bit set unchanged; in a character type
  of at least 8 bits the ASCII lowercase letters are such characters.
\<close>

theorem to_lower_idempotent:
  fixes c :: "'a::len word"
  shows "to_lower (to_lower c) = to_lower c
    \<and> (c AND lowercase_bit = lowercase_bit \<longrightarrow> to_lower c = c)
    \<and> (8 \<le> LENGTH('a) \<and> chr_a \<le> c \<and> c \<le> chr_z \<longrightarrow>
          c AND lowercase_bit = lowercase_bit \<and> to_lower c = c)"
proof (intro conjI impI)
  show "to_lower (to_lower c) = to_lower c" by (rule to_lower_idem)
next
  assume "c AND lowercase_bit = lowercase_bit"
  then show "to_lower c = c" by (rule to_lower_fixed)
next
  assume a: "8 \<le> LENGTH('a) \<and> chr_a \<le> c \<and> c \<le> chr_z"
  then have len: "8 \<le> LENGTH('a)" by simp
  from a have r: "97 \<le> unat c" "unat c \<le> 122"
    using unat_codes(1,2) [OF len] by (simp_all add: word_le_nat_alt)
  from r have "odd (unat c div 32)"
    using div32_lowercase_range [of "unat c"] by auto
  then have "unat (to_lower c) = unat c" by (simp add: unat_to_lower [OF len])
  then show low: "to_lower c = c" by (simp add: word_unat_eq_iff)
  have "(c AND lowercase_bit) + (c OR lowercase_bit) = c + lowercase_bit"
    by (rule word_plus_and_or)
  with low show "c AND lowercase_bit = lowercase_bit" by (simp add: to_lower_def)
qed

theorem to_lower_idempotent_witness:
  "(0x61 :: 8 word) AND lowercase_bit = lowercase_bit
    \<and> 8 \<le> LENGTH(8) \<and> chr_a \<le> (0x61 :: 8 word) \<and> (0x61 :: 8 word) \<le> chr_z
    \<and> to_lower (0x61 :: 8 word) = 0x61
    \<and> to_lower (to_lower (0x41 :: 8 word)) = to_lower 0x41"
  using to_lower_idempotent [of "0x61 :: 8 word"] to_lower_idempotent [of "0x41 :: 8 word"]
  by (simp add: lowercase_bit_32 chr_a_def chr_z_def)

section \<open>Facts about the matcher\<close>

lemma lit_simps: "lit [] = []" "lit (c # cs) = of_nat (of_char c) # lit cs"
  by (simp_all add: lit_def)

lemmas char_codes = chr_a_def chr_z_def chr_A_def qmark_def dot_def star_def lowercase_bit_32

lemmas glob_eval = glob.simps lit_simps char_codes wildcard_comparator_def is_alpha_def
  to_lower_def bool_bitand_iff

text \<open>The compile-time tests of the source hold of the model.\<close>

lemma static_asserts_classifier:
  "to_lower (0x61 :: 8 word) = 0x61" "to_lower (0x41 :: 8 word) = 0x61"
  "is_alpha (0x61 :: 8 word)" "is_alpha (0x41 :: 8 word)"
  "\<not> is_alpha (0x30 :: 8 word)" "\<not> is_alpha (0x40 :: 8 word)"
  by (simp_all add: glob_eval)

lemma static_asserts_glob:
  "\<not> glob True (lit ''abc'' :: 8 word list) (lit ''def'')"
  "\<not> glob True (lit ''abc'' :: 8 word list) (lit ''ABC'')"
  "glob False (lit ''abc'' :: 8 word list) (lit ''ABC'')"
  "glob True (lit ''abc'' :: 8 word list) (lit ''abc'')"
  "glob True (lit ''a?c'' :: 8 word list) (lit ''abc'')"
  "glob True (lit ''a*c'' :: 8 word list) (lit ''axxxxxc'')"
  "glob True (lit ''a*b*c'' :: 8 word list) (lit ''axxxbxxc'')"
  "\<not> glob True (lit ''a*b*c'' :: 8 word list) (lit ''axxxxxxc'')"
  "glob False (lit ''*.exe'' :: 8 word list) (lit ''aloha.EXE'')"
  "glob False (lit ''***abc***'' :: 8 word list) (lit ''abc'')"
  "glob False (lit ''***a?c***'' :: 8 word list) (lit ''xxxxxxxaxcxxxxxx'')"
  "glob False (lit ''abc*'' :: 8 word list) (lit ''abc'')"
  "glob False (lit ''*abc'' :: 8 word list) (lit ''abc'')"
  by (simp_all add: glob_eval)

lemma static_asserts_glob_match:
  "glob_match_default (Fixed_string (string_literal (lit ''*.exe''))) (lit ''aloha.EXE'' :: 8 word list)"
  "glob_match_default (Fixed_string (string_literal (lit ''ver??.txt''))) (lit ''ver92.txt'' :: 8 word list)"
  by (simp_all add: glob_match_default_def glob_match_def glob_sv_def to_view_def
      fixed_string_size_def string_literal_def glob_eval)

text \<open>One round of the loop of \<open>glob\<close>, given where the lock-step scan stopped.\<close>

lemma glob_step:
  "mismatch (wildcard_comparator cs) p s = (x, y) \<Longrightarrow>
   glob cs p s =
     (if x = [] then y = []
      else if hd x \<noteq> star then False
      else if glob cs (tl x) y then True
      else if y = [] then False
      else glob cs x (tl y))"
  by (subst glob.simps) simp

lemma glob_same_mismatch:
  "mismatch (wildcard_comparator cs) p s = mismatch (wildcard_comparator cs) p' s' \<Longrightarrow>
   glob cs p s = glob cs p' s'"
  by (subst glob.simps, subst (2) glob.simps) simp

lemma mismatch_Nil [simp]: "mismatch pred [] ys = ([], ys)"
  by (cases ys) simp_all

lemma mismatch_Nil2 [simp]: "mismatch pred xs [] = (xs, [])"
  by (cases xs) simp_all

lemma mismatch_suffix:
  "mismatch pred xs ys = (x, y) \<Longrightarrow>
   \<exists>us vs. xs = us @ x \<and> ys = vs @ y \<and> list_all2 pred us vs"
proof (induction pred xs ys arbitrary: x y rule: mismatch.induct)
  case (1 pred a xs b ys)
  show ?case
  proof (cases "pred a b")
    case True
    with "1.prems" have "mismatch pred xs ys = (x, y)" by simp
    from "1.IH" [OF True this] obtain us vs
      where "xs = us @ x" "ys = vs @ y" "list_all2 pred us vs" by blast
    with True have "a # xs = (a # us) @ x \<and> b # ys = (b # vs) @ y \<and> list_all2 pred (a # us) (b # vs)"
      by simp
    then show ?thesis by blast
  next
    case False
    with "1.prems" have "a # xs = [] @ x \<and> b # ys = [] @ y \<and> list_all2 pred [] []" by auto
    then show ?thesis by blast
  qed
qed auto

lemma mismatch_append:
  "list_all2 pred us vs \<Longrightarrow> mismatch pred (us @ xs) (vs @ ys) = mismatch pred xs ys"
  by (induction us vs rule: list_all2_induct) simp_all

lemma mismatch_stops:
  "mismatch pred xs ys = (a # x, b # y) \<Longrightarrow> \<not> pred a b"
proof (induction pred xs ys rule: mismatch.induct)
  case (1 pred a' xs b' ys)
  then show ?case by (cases "pred a' b'") auto
qed simp_all

text \<open>The computation always returns, and it returns the value of \<open>glob\<close>.\<close>

lemma glob_partial_eq: "glob_partial cs pit sit = Some (glob cs pit sit)"
proof (induction cs pit sit rule: glob.induct)
  case (1 cs pit sit)
  obtain x y where m: "mismatch (wildcard_comparator cs) pit sit = (x, y)"
    by (cases "mismatch (wildcard_comparator cs) pit sit")
  show ?case
  proof (cases "x = [] \<or> hd x \<noteq> star")
    case True
    then show ?thesis
      by (subst glob_partial.simps, subst glob.simps) (auto simp: m)
  next
    case False
    then have a: "x \<noteq> []" "\<not> hd x \<noteq> star" by simp_all
    have ih1: "glob_partial cs (tl x) y = Some (glob cs (tl x) y)"
      using "1.IH"(1) [OF m [symmetric] a] .
    show ?thesis
    proof (cases "glob cs (tl x) y \<or> y = []")
      case True
      then show ?thesis
        using a ih1 by (subst glob_partial.simps, subst glob.simps) (auto simp: m)
    next
      case False
      then have b: "\<not> glob cs (tl x) y" "y \<noteq> []" by simp_all
      have ih2: "glob_partial cs x (tl y) = Some (glob cs x (tl y))"
        using "1.IH"(2) [OF m [symmetric] a b] .
      show ?thesis
        using a b ih1 ih2 by (subst glob_partial.simps, subst glob.simps) (auto simp: m)
    qed
  qed
qed

section \<open>The claims\<close>

text \<open>
  Claim C7: the empty pattern matches exactly the empty subject, in both case modes;
  more generally, when the lock-step scan exhausts the pattern, the result is true iff
  the subject is exhausted too.
\<close>

theorem empty_pattern_matches_empty_subject:
  fixes p s :: "'a::len word list"
  shows "glob cs [] ([] :: 'a word list) = True
    \<and> glob cs [] s = (s = [])
    \<and> (fst (mismatch (wildcard_comparator cs) p s) = [] \<longrightarrow>
          glob cs p s = (snd (mismatch (wildcard_comparator cs) p s) = []))"
proof (intro conjI impI)
  show "glob cs [] ([] :: 'a word list) = True"
    by (simp add: glob_step [of cs "[]" "[]" "[]" "[]"])
  show "glob cs [] s = (s = [])" by (simp add: glob_step [of cs "[]" s "[]" s])
next
  assume e: "fst (mismatch (wildcard_comparator cs) p s) = []"
  obtain x y where m: "mismatch (wildcard_comparator cs) p s = (x, y)"
    by (cases "mismatch (wildcard_comparator cs) p s")
  with e have "x = []" by simp
  with m show "glob cs p s = (snd (mismatch (wildcard_comparator cs) p s) = [])"
    by (simp add: glob_step [OF m])
qed

theorem empty_pattern_matches_empty_subject_witness:
  "fst (mismatch (wildcard_comparator True) (lit ''ab'') (lit ''abc'' :: 8 word list)) = []
    \<and> snd (mismatch (wildcard_comparator True) (lit ''ab'') (lit ''abc'' :: 8 word list)) = lit ''c''
    \<and> glob True (lit ''ab'') (lit ''abc'' :: 8 word list) = False
    \<and> glob False [] (lit ''abc'' :: 8 word list) = False"
  using empty_pattern_matches_empty_subject
    [of True "lit ''abc'' :: 8 word list" "lit ''ab''"]
    empty_pattern_matches_empty_subject [of False "lit ''abc'' :: 8 word list" "[]"]
  by (simp add: lit_simps char_codes wildcard_comparator_def)

text \<open>
  Claim C5: in both case modes the comparator accepts a pattern \<open>?\<close> iff the subject
  character is not the dot, whatever the case mode; the pattern \<open>?\<close> alone matches exactly
  the subjects of one character other than the dot; \<open>a?c\<close> does not match \<open>a.c\<close> and does
  match \<open>abc\<close>.
\<close>

theorem qmark_matches_any_character_but_dot:
  "wildcard_comparator cs qmark c = (c \<noteq> dot)
    \<and> glob cs (lit ''?'') (subject :: 8 word list) = (length subject = 1 \<and> hd subject \<noteq> dot)
    \<and> glob cs (lit ''a?c'') (lit ''a.c'' :: 8 word list) = False
    \<and> glob cs (lit ''a?c'') (lit ''abc'' :: 8 word list) = True"
proof (intro conjI)
  show "wildcard_comparator cs qmark c = (c \<noteq> dot)"
    by (simp add: wildcard_comparator_def)
  show "glob cs (lit ''?'') subject = (length subject = 1 \<and> hd subject \<noteq> dot)"
    by (cases subject; cases "tl subject") (simp_all add: glob_eval)
  show "glob cs (lit ''a?c'') (lit ''a.c'' :: 8 word list) = False"
    by (simp add: glob_eval)
  show "glob cs (lit ''a?c'') (lit ''abc'' :: 8 word list) = True"
    by (simp add: glob_eval)
qed

text \<open>
  Claim C6 reads the backtracking across several stars as finding an interleaving
  whenever one exists. The two examples of the claim hold of the code: case-sensitively
  \<open>a*b*c\<close> matches \<open>axxxbxxc\<close> and does not match \<open>axxxxxxc\<close>. The general statement does
  not: the subject \<open>a*xbc\<close> has an interleaving for \<open>a*b*c\<close> (the first star absorbs \<open>*x\<close>,
  the second nothing), as the matching relation of the specification says, but the
  lock-step scan consumes the first star of the pattern against the star of the subject,
  stops at \<open>b\<close> against \<open>x\<close>, and the code returns false without reaching any star; it does
  find the interleaving for the subject \<open>axxbc\<close>.
\<close>

theorem backtracking_misses_interleaving_on_subject_star:
  "glob True (lit ''a*b*c'') (lit ''a*xbc'' :: 8 word list) = False
    \<and> glob_spec True (lit ''a*b*c'') (lit ''a*xbc'' :: 8 word list) = True
    \<and> mismatch (wildcard_comparator True) (lit ''a*b*c'') (lit ''a*xbc'' :: 8 word list)
        = (lit ''b*c'', lit ''xbc'')
    \<and> glob True (lit ''a*b*c'') (lit ''axxbc'' :: 8 word list) = True
    \<and> glob True (lit ''a*b*c'') (lit ''axxxbxxc'' :: 8 word list) = True
    \<and> glob True (lit ''a*b*c'') (lit ''axxxxxxc'' :: 8 word list) = False"
  by (simp add: glob_eval)

lemma to_lower_xor:
  fixes p s :: "'a::len word"
  assumes "p XOR s = lowercase_bit"
  shows "to_lower p = to_lower s"
proof -
  have "s = p XOR lowercase_bit"
    using assms by (metis xor.assoc xor_self_eq xor.right_neutral xor.commute)
  moreover have "(p XOR lowercase_bit) OR lowercase_bit = p OR lowercase_bit"
    by (rule bit_eqI) (auto simp: bit_or_iff bit_xor_iff)
  ultimately show ?thesis by (simp add: to_lower_def)
qed

text \<open>
  Claim C3: in case-insensitive mode, for a pattern character other than \<open>?\<close>, the
  comparator accepts iff the two characters are equal, or both are alphabetic and their
  lowercase forms are equal. Two distinct characters that differ by exactly the fold bit,
  one of them not alphabetic, have equal lowercase forms and are still rejected; so
  \<open>@\<close> (0x40) does not match the backquote (0x60).
\<close>

theorem case_insensitive_comparator:
  fixes p s :: "'a::len word"
  shows "(p \<noteq> qmark \<longrightarrow>
      wildcard_comparator False p s =
        (p = s \<or> (is_alpha p \<and> is_alpha s \<and> to_lower p = to_lower s)))
    \<and> (p \<noteq> qmark \<and> p \<noteq> s \<and> (\<not> is_alpha p \<or> \<not> is_alpha s) \<and> p XOR s = lowercase_bit \<longrightarrow>
          to_lower p = to_lower s \<and> wildcard_comparator False p s = False)
    \<and> wildcard_comparator False (0x40 :: 8 word) 0x60 = False
    \<and> glob False (lit ''@'') (lit ''`'' :: 8 word list) = False"
proof (intro conjI impI)
  assume "p \<noteq> qmark"
  then show "wildcard_comparator False p s =
        (p = s \<or> (is_alpha p \<and> is_alpha s \<and> to_lower p = to_lower s))"
    by (simp add: wildcard_comparator_def bool_bitand_iff)
next
  assume a: "p \<noteq> qmark \<and> p \<noteq> s \<and> (\<not> is_alpha p \<or> \<not> is_alpha s) \<and> p XOR s = lowercase_bit"
  then show "to_lower p = to_lower s" by (simp add: to_lower_xor)
  from a show "wildcard_comparator False p s = False"
    by (auto simp: wildcard_comparator_def bool_bitand_iff)
next
  show "wildcard_comparator False (0x40 :: 8 word) 0x60 = False"
    by (simp add: glob_eval)
  show "glob False (lit ''@'') (lit ''`'' :: 8 word list) = False"
    by (simp add: glob_eval)
qed

theorem case_insensitive_comparator_witness:
  "(0x40 :: 8 word) \<noteq> qmark \<and> (0x40 :: 8 word) \<noteq> 0x60
    \<and> is_alpha (0x40 :: 8 word) = False \<and> (0x40 :: 8 word) XOR 0x60 = lowercase_bit
    \<and> to_lower (0x40 :: 8 word) = to_lower 0x60
    \<and> wildcard_comparator False (0x40 :: 8 word) 0x60 = False
    \<and> wildcard_comparator False (0x41 :: 8 word) 0x61 = True"
  using case_insensitive_comparator [of "0x40 :: 8 word" "0x60"]
    case_insensitive_comparator [of "0x41 :: 8 word" "0x61"]
  by (simp add: char_codes is_alpha_def to_lower_def bool_bitand_iff)

text \<open>
  Claim C4: for every pattern, every subject and either case mode the matcher returns a
  boolean: the computation read without any termination assumption has a result. At a
  star the recursive call gets a strictly shorter residual pattern, with strictly fewer
  stars, and the next round of the retry loop gets a strictly shorter residual subject.
\<close>

theorem glob_terminates:
  fixes pit sit :: "'a::len word list"
  shows "(\<exists>b. glob_partial cs pit sit = Some b)
    \<and> (\<forall>x y. mismatch (wildcard_comparator cs) pit sit = (x, y) \<and> x \<noteq> [] \<and> hd x = star \<longrightarrow>
          length (tl x) < length pit \<and> count_list (tl x) star < count_list pit star
          \<and> (y \<noteq> [] \<longrightarrow> length x \<le> length pit \<and> length (tl y) < length sit))"
proof (intro conjI allI impI)
  show "\<exists>b. glob_partial cs pit sit = Some b"
    by (simp add: glob_partial_eq)
next
  fix x y
  assume a: "mismatch (wildcard_comparator cs) pit sit = (x, y) \<and> x \<noteq> [] \<and> hd x = star"
  then obtain us vs where s: "pit = us @ x" "sit = vs @ y"
    using mismatch_suffix [of "wildcard_comparator cs" pit sit x y] by blast
  from a obtain x' where x: "x = star # x'" by (cases x) auto
  show "length (tl x) < length pit" by (simp add: s x)
  show "count_list (tl x) star < count_list pit star" by (simp add: s x)
  show "length x \<le> length pit" by (simp add: s)
  assume "y \<noteq> []"
  then show "length (tl y) < length sit" by (cases y) (simp_all add: s)
qed

theorem glob_terminates_witness:
  "glob_partial True (lit ''a*b'') (lit ''axb'' :: 8 word list) = Some True
    \<and> mismatch (wildcard_comparator True) (lit ''a*b'') (lit ''axb'' :: 8 word list)
        = (lit ''*b'', lit ''xb'')
    \<and> hd (lit ''*b'' :: 8 word list) = star
    \<and> length (tl (lit ''*b'' :: 8 word list)) < length (lit ''a*b'' :: 8 word list)
    \<and> count_list (tl (lit ''*b'' :: 8 word list)) star
        < count_list (lit ''a*b'' :: 8 word list) star
    \<and> length (tl (lit ''xb'' :: 8 word list)) < length (lit ''axb'' :: 8 word list)"
proof -
  let ?p = "lit ''a*b'' :: 8 word list" and ?s = "lit ''axb'' :: 8 word list"
  have m: "mismatch (wildcard_comparator True) ?p ?s = (lit ''*b'', lit ''xb'')"
    by (simp add: lit_simps char_codes wildcard_comparator_def)
  have h: "lit ''*b'' \<noteq> ([] :: 8 word list)" "hd (lit ''*b'' :: 8 word list) = star"
    "lit ''xb'' \<noteq> ([] :: 8 word list)"
    by (simp_all add: lit_simps char_codes)
  obtain b where b: "glob_partial True ?p ?s = Some b"
    using glob_terminates [of True ?p ?s] by blast
  have "glob_partial True ?p ?s = Some (glob True ?p ?s)" by (rule glob_partial_eq)
  then have r: "glob_partial True ?p ?s = Some True" by (simp add: glob_eval)
  from glob_terminates [of True ?p ?s] m h
  have "length (tl (lit ''*b'' :: 8 word list)) < length ?p
    \<and> count_list (tl (lit ''*b'' :: 8 word list)) star < count_list ?p star
    \<and> length (tl (lit ''xb'' :: 8 word list)) < length ?s"
    by blast
  with r m h show ?thesis by blast
qed

text \<open>
  Claim C9: every entry point computes the predicate of the iterator-level \<open>glob\<close> on the
  characters its arguments hold: the string-view overload, the generic overload (through
  the conversions to string views), \<open>glob_match\<close> with a fixed pattern, and \<open>glob_me\<close> in
  case-insensitive mode. For a pattern given by a string literal, \<open>glob_match\<close> applies the
  characters of the literal without the terminating null character; the default mode of
  \<open>glob_match\<close> is the case-insensitive one.
\<close>

theorem entry_points_agree:
  "glob_sv cs pattern subject = glob cs pattern subject
    \<and> glob_any view_a view_b cs a b = glob cs (view_a a) (view_b b)
    \<and> fixed_string_size (Fixed_string (string_literal chars)) = length chars
    \<and> to_view (Fixed_string (string_literal chars)) = chars
    \<and> glob_match (Fixed_string (string_literal chars)) cs subject = glob cs chars subject
    \<and> glob_match_default (Fixed_string (string_literal chars)) subject = glob False chars subject
    \<and> glob_me pattern8 subject8 = glob False pattern8 subject8"
  by (simp add: glob_sv_def glob_any_def glob_match_def glob_match_default_def glob_me_def
      to_view_def fixed_string_size_def string_literal_def)

text \<open>
  The comparator accepts a star of the pattern exactly against a star of the subject, in
  both case modes, so both modes stop the lock-step scan at the same stars.
\<close>

lemma comparator_sensitive_imp_insensitive:
  "wildcard_comparator True p s \<Longrightarrow> wildcard_comparator False p s"
  by (auto simp: wildcard_comparator_def split: if_splits)

lemma comparator_star:
  assumes "8 \<le> LENGTH('a::len)"
  shows "wildcard_comparator cs (star :: 'a word) s = (s = star)"
  using codes_distinct(1) [OF assms] star_not_alpha [OF assms]
  by (auto simp: wildcard_comparator_def bool_bitand_iff)

lemma mismatch_insensitive:
  fixes p s :: "'a::len word list"
  assumes len: "8 \<le> LENGTH('a)"
  shows "mismatch (wildcard_comparator True) p s = (x, y) \<Longrightarrow>
    (x = [] \<and> y = []) \<or> (x \<noteq> [] \<and> hd x = star) \<Longrightarrow>
    mismatch (wildcard_comparator False) p s = (x, y)"
proof (induction "wildcard_comparator True :: 'a word \<Rightarrow> 'a word \<Rightarrow> bool" p s rule: mismatch.induct)
  case (1 a xs b ys)
  show ?case
  proof (cases "wildcard_comparator True a b")
    case True
    with "1.prems" have "mismatch (wildcard_comparator True) xs ys = (x, y)" by simp
    from "1.hyps" [OF True this "1.prems"(2)] True show ?thesis
      by (simp add: comparator_sensitive_imp_insensitive)
  next
    case False
    with "1.prems" have xy: "x = a # xs" "y = b # ys" by simp_all
    with "1.prems"(2) have "a = star" by simp
    with False have "\<not> wildcard_comparator False a b"
      by (simp add: comparator_star [OF len])
    with xy show ?thesis by simp
  qed
qed simp_all

text \<open>
  Claim C8: whatever matches case-sensitively also matches case-insensitively, for
  every character type of at least 8 bits.
\<close>

theorem insensitive_accepts_superset:
  fixes pattern subject :: "'a::len word list"
  assumes len: "8 \<le> LENGTH('a)"
  shows "glob True pattern subject \<Longrightarrow> glob False pattern subject"
proof (induction "length pattern + length subject" arbitrary: pattern subject rule: less_induct)
  case less
  obtain x y where m: "mismatch (wildcard_comparator True) pattern subject = (x, y)"
    by (cases "mismatch (wildcard_comparator True) pattern subject")
  then obtain us vs where s: "pattern = us @ x" "subject = vs @ y"
    using mismatch_suffix [of "wildcard_comparator True" pattern subject x y] by blast
  from less.prems have g: "if x = [] then y = []
      else if hd x \<noteq> star then False
      else if glob True (tl x) y then True
      else if y = [] then False
      else glob True x (tl y)"
    by (simp add: glob_step [OF m])
  show ?case
  proof (cases "x = []")
    case True
    with g have "y = []" by simp
    with True m have "mismatch (wildcard_comparator False) pattern subject = ([], [])"
      using mismatch_insensitive [OF len, of pattern subject x y] by simp
    then show ?thesis by (simp add: glob_step)
  next
    case False
    with g have st: "hd x = star" by (simp split: if_splits)
    with False m have m': "mismatch (wildcard_comparator False) pattern subject = (x, y)"
      using mismatch_insensitive [OF len, of pattern subject x y] by simp
    show ?thesis
    proof (cases "glob True (tl x) y")
      case True
      from False have "length (tl x) + length y < length pattern + length subject"
        by (cases x) (simp_all add: s)
      from less.hyps [OF this True] have "glob False (tl x) y" .
      with False st show ?thesis by (simp add: glob_step [OF m'])
    next
      case no: False
      with False st g have y: "y \<noteq> []" and t: "glob True x (tl y)"
        by (simp_all split: if_splits)
      from y have "length x + length (tl y) < length pattern + length subject"
        by (cases y) (simp_all add: s)
      from less.hyps [OF this t] have "glob False x (tl y)" .
      with False st y show ?thesis by (simp add: glob_step [OF m'])
    qed
  qed
qed

theorem insensitive_accepts_superset_witness:
  "8 \<le> LENGTH(8)
    \<and> glob True (lit ''a*c'') (lit ''axxc'' :: 8 word list)
    \<and> glob False (lit ''a*c'') (lit ''axxc'' :: 8 word list)"
proof -
  have len: "8 \<le> LENGTH(8)" by simp
  have t: "glob True (lit ''a*c'') (lit ''axxc'' :: 8 word list)"
    by (simp add: glob_eval)
  from insensitive_accepts_superset [OF len t] len t show ?thesis by simp
qed

lemma glob_star_absorbs:
  fixes rest :: "'a::len word list"
  assumes len: "8 \<le> LENGTH('a)"
  shows "star \<notin> set rest \<Longrightarrow> glob cs [star] rest"
proof (induction rest)
  case Nil
  have "glob cs [] ([] :: 'a word list)"
    by (simp add: glob_step [of cs "[]" "[]" "[]" "[]"])
  then show ?case
    by (simp add: glob_step [of cs "[star]" "[]" "[star]" "[]"])
next
  case (Cons r rest)
  then have "r \<noteq> star" and ih: "glob cs [star] rest" by auto
  then have "mismatch (wildcard_comparator cs) [star] (r # rest) = ([star], r # rest)"
    by (simp add: comparator_star [OF len])
  from glob_step [OF this] ih show ?case by simp
qed

text \<open>
  Against a subject that holds no star character the lock-step scan stops at a star of
  the pattern.
\<close>

lemma scan_stops_at_pattern_star:
  fixes subject :: "'a::len word list"
  assumes "8 \<le> LENGTH('a)" "star \<notin> set subject"
  shows "mismatch (wildcard_comparator cs) (star # pattern) subject = (star # pattern, subject)"
  using assms by (cases subject) (auto simp: comparator_star)

text \<open>
  A trailing star absorbs every remainder of the subject that holds no star character.
\<close>

lemma trailing_star_absorbs_star_free_rest:
  fixes P S rest :: "'a::len word list"
  assumes len: "8 \<le> LENGTH('a)"
    and pre: "list_all2 (wildcard_comparator cs) P S"
    and rest: "star \<notin> set rest"
  shows "glob cs (P @ [star]) (S @ rest)"
proof -
  have "mismatch (wildcard_comparator cs) (P @ [star]) (S @ rest)
      = mismatch (wildcard_comparator cs) [star] rest"
    using pre by (rule mismatch_append)
  then have "glob cs (P @ [star]) (S @ rest) = glob cs [star] rest"
    by (rule glob_same_mismatch)
  with glob_star_absorbs [OF len rest] show ?thesis by simp
qed

text \<open>
  Claim C1 reads the star of the pattern as handled by the backtracking step only. In
  the code the comparator is applied to it like to any other pattern character and
  accepts it against a star of the subject, so the lock-step scan passes over the pair:
  the case-sensitive match of \<open>*x\<close> against \<open>*yx\<close> stops at \<open>x\<close> against \<open>y\<close> and is false,
  while \<open>*x\<close> matches \<open>ayx\<close>.
\<close>

theorem subject_star_consumes_pattern_star:
  "wildcard_comparator cs (star :: 8 word) star = True
    \<and> mismatch (wildcard_comparator True) (lit ''*x'') (lit ''*yx'' :: 8 word list)
        = (lit ''x'', lit ''yx'')
    \<and> glob True (lit ''*x'') (lit ''*yx'' :: 8 word list) = False
    \<and> glob True (lit ''*x'') (lit ''ayx'' :: 8 word list) = True"
  by (simp add: glob_eval)

text \<open>
  Claim C2 lets a trailing star absorb any remainder of the subject. In the code a star
  in the remainder is consumed together with the trailing star of the pattern, and the
  match fails when characters follow it: in both case modes \<open>a*\<close> does not match \<open>a*b\<close>,
  and \<open>*\<close> does not match \<open>x*y\<close>, while \<open>a*\<close> matches \<open>axb\<close>, \<open>a?b\<close> and \<open>a\<close>.
\<close>

theorem trailing_star_fails_on_subject_star:
  "glob cs (lit ''a*'') (lit ''a*b'' :: 8 word list) = False
    \<and> glob cs (lit ''*'') (lit ''x*y'' :: 8 word list) = False
    \<and> glob cs (lit ''a*'') (lit ''axb'' :: 8 word list) = True
    \<and> glob cs (lit ''a*'') (lit ''a?b'' :: 8 word list) = True
    \<and> glob cs (lit ''a*'') (lit ''a'' :: 8 word list) = True"
  by (simp add: glob_eval)

section \<open>The matcher against the matching relation of the specification\<close>

lemma glob_spec_star:
  "glob_spec cs (star # ps) s = (glob_spec cs ps s \<or> (s \<noteq> [] \<and> glob_spec cs (star # ps) (tl s)))"
  by (cases s) auto

lemma accepted_prefix_star_free:
  fixes us vs :: "'a::len word list"
  assumes len: "8 \<le> LENGTH('a)"
  shows "list_all2 (wildcard_comparator cs) us vs \<Longrightarrow> star \<notin> set vs \<Longrightarrow> star \<notin> set us"
  by (induction us vs rule: list_all2_induct) (auto simp: comparator_star [OF len])

lemma glob_spec_append:
  "list_all2 (wildcard_comparator cs) us vs \<Longrightarrow> star \<notin> set us \<Longrightarrow>
   glob_spec cs (us @ x) (vs @ y) = glob_spec cs x y"
  by (induction us vs rule: list_all2_induct) auto

text \<open>
  On every subject that holds no star character \<open>glob\<close> decides the matching relation of
  the specification.
\<close>

lemma glob_meets_spec_on_star_free_subject:
  fixes pattern subject :: "'a::len word list"
  assumes len: "8 \<le> LENGTH('a)"
  shows "star \<notin> set subject \<Longrightarrow> glob cs pattern subject = glob_spec cs pattern subject"
proof (induction "length pattern + length subject" arbitrary: pattern subject rule: less_induct)
  case less
  obtain x y where m: "mismatch (wildcard_comparator cs) pattern subject = (x, y)"
    by (cases "mismatch (wildcard_comparator cs) pattern subject")
  then obtain us vs where s: "pattern = us @ x" "subject = vs @ y"
      and acc: "list_all2 (wildcard_comparator cs) us vs"
    using mismatch_suffix [of "wildcard_comparator cs" pattern subject x y] by blast
  from less.prems s have free: "star \<notin> set vs" "star \<notin> set y" by simp_all
  from accepted_prefix_star_free [OF len acc free(1)]
  have spec: "glob_spec cs pattern subject = glob_spec cs x y"
    by (simp add: s glob_spec_append [OF acc])
  show ?case
  proof (cases x)
    case Nil
    then show ?thesis by (simp add: glob_step [OF m] spec)
  next
    case (Cons a x')
    show ?thesis
    proof (cases "a = star")
      case False
      have "\<not> glob_spec cs (a # x') y"
      proof (cases y)
        case Nil
        with False show ?thesis by simp
      next
        case (Cons b y')
        with m \<open>x = a # x'\<close> have "\<not> wildcard_comparator cs a b"
          using mismatch_stops [of "wildcard_comparator cs" pattern subject a x' b y'] by simp
        with False Cons show ?thesis by simp
      qed
      with False Cons show ?thesis by (simp add: glob_step [OF m] spec)
    next
      case True
      have "length x' + length y < length pattern + length subject"
        by (simp add: s Cons)
      from less.hyps [OF this free(2)]
      have ih1: "glob cs x' y = glob_spec cs x' y" .
      have ih2: "glob cs x (tl y) = glob_spec cs x (tl y)" if "y \<noteq> []"
      proof -
        from that have "length x + length (tl y) < length pattern + length subject"
          by (cases y) (simp_all add: s)
        moreover from that free(2) have "star \<notin> set (tl y)"
          by (cases y) simp_all
        ultimately show ?thesis by (rule less.hyps)
      qed
      have "glob cs pattern subject = (glob cs x' y \<or> (y \<noteq> [] \<and> glob cs x (tl y)))"
        using True Cons by (auto simp: glob_step [OF m])
      also have "\<dots> = (glob_spec cs x' y \<or> (y \<noteq> [] \<and> glob_spec cs x (tl y)))"
        using ih1 ih2 by auto
      also have "\<dots> = glob_spec cs x y"
        using True Cons glob_spec_star [of cs x' y] by simp
      finally show ?thesis by (simp add: spec)
    qed
  qed
qed

text \<open>
  On a subject with a star character the two differ: the matching relation of the
  specification accepts \<open>*yx\<close> for the pattern \<open>*x\<close> and \<open>a*b\<close> for the pattern \<open>a*\<close>.
\<close>

lemma glob_spec_on_subject_star:
  "glob_spec True (lit ''*x'') (lit ''*yx'' :: 8 word list)"
  "glob_spec cs (lit ''a*'') (lit ''a*b'' :: 8 word list)"
  by (simp_all add: lit_simps char_codes wildcard_comparator_def)

end
